theory Spec2Isabelle
  imports Complex_Main "HOL-Library.Monad_Syntax" "HOL-Library.Product_Lexorder"
begin

section \<open>Text, cells and frames\<close>

text \<open>
  The transformation module \<^verbatim>\<open>scripts/transformer.py\<close> works on pandas data frames.
  A frame is modelled column by column, as pandas stores it: an association list from
  column labels to the cells of the column, in column order. A computation that raises
  in the source (\<^verbatim>\<open>KeyError\<close> for a missing column, \<^verbatim>\<open>TypeError\<close> for arithmetic on a
  non-number, \<^verbatim>\<open>ValueError\<close> for a failed integer conversion, \<^verbatim>\<open>MergeError\<close> for
  a suffix collision) has the value \<open>None\<close>.

  Text is ASCII: \<open>str.lower\<close>, \<open>str.upper\<close> and \<open>str.strip\<close> are modelled on the
  ASCII letters and the ASCII whitespace characters.
\<close>

subsection \<open>Python string methods\<close>

definition py_isspace :: "char \<Rightarrow> bool" where
  "py_isspace c = (c \<in> set [CHR '' '', CHR 0x09, CHR 0x0A, CHR 0x0B, CHR 0x0C, CHR 0x0D,
                              CHR 0x1C, CHR 0x1D, CHR 0x1E, CHR 0x1F])"

definition ascii_uppercase :: string where
  "ascii_uppercase = ''ABCDEFGHIJKLMNOPQRSTUVWXYZ''"

definition ascii_lowercase :: string where
  "ascii_lowercase = ''abcdefghijklmnopqrstuvwxyz''"

definition char_lower :: "char \<Rightarrow> char" where
  "char_lower c =
     (case map_of (zip ascii_uppercase ascii_lowercase) c of Some d \<Rightarrow> d | None \<Rightarrow> c)"

definition char_upper :: "char \<Rightarrow> char" where
  "char_upper c =
     (case map_of (zip ascii_lowercase ascii_uppercase) c of Some d \<Rightarrow> d | None \<Rightarrow> c)"

definition str_lower :: "string \<Rightarrow> string" where
  "str_lower s = map char_lower s"

definition str_upper :: "string \<Rightarrow> string" where
  "str_upper s = map char_upper s"

text \<open>\<^verbatim>\<open>s.strip()\<close>: leading and trailing whitespace removed.\<close>

definition str_strip :: "string \<Rightarrow> string" where
  "str_strip s = rev (dropWhile py_isspace (rev (dropWhile py_isspace s)))"

text \<open>\<^verbatim>\<open>s.replace(c, '')\<close> for a single character \<open>c\<close>.\<close>

definition str_remove :: "char \<Rightarrow> string \<Rightarrow> string" where
  "str_remove c s = filter (\<lambda>x. x \<noteq> c) s"

text \<open>\<^verbatim>\<open>sep.join(xs)\<close>.\<close>

fun str_join :: "string \<Rightarrow> string list \<Rightarrow> string" where
  "str_join sep [] = []"
| "str_join sep [x] = x"
| "str_join sep (x # y # ys) = x @ sep @ str_join sep (y # ys)"

definition ascii_text :: "string \<Rightarrow> bool" where
  "ascii_text s = (\<forall>c\<in>set s. \<not> digit7 c)"

subsection \<open>Decimal digits\<close>

definition decimal_digits :: string where
  "decimal_digits = ''0123456789''"

text \<open>The character of a digit \<open>d < 10\<close>, and the digit of a character.\<close>

definition digit_char :: "nat \<Rightarrow> char" where
  "digit_char d = decimal_digits ! d"

definition digit_val :: "char \<Rightarrow> nat option" where
  "digit_val c = map_of (zip decimal_digits [0, 1, 2, 3, 4, 5, 6, 7, 8, 9]) c"

text \<open>The last \<open>n\<close> decimal digits of \<open>k\<close>, zero padded: \<^verbatim>\<open>'%0nd' % k\<close> for \<open>k < 10 ^ n\<close>.\<close>

fun dec_digits :: "nat \<Rightarrow> nat \<Rightarrow> string" where
  "dec_digits 0 k = []"
| "dec_digits (Suc n) k = dec_digits n (k div 10) @ [digit_char (k mod 10)]"

text \<open>\<^verbatim>\<open>str(k)\<close> for a natural number, and \<^verbatim>\<open>str(i)\<close> for a Python integer.\<close>

fun nat_str :: "nat \<Rightarrow> string" where
  "nat_str k = (if k < 10 then [digit_char k] else nat_str (k div 10) @ [digit_char (k mod 10)])"

declare nat_str.simps [simp del]

definition int_str :: "int \<Rightarrow> string" where
  "int_str i = (if i < 0 then CHR ''-'' # nat_str (nat (- i)) else nat_str (nat i))"

text \<open>
  \<^verbatim>\<open>int(s)\<close> on a string of decimal digits; \<open>None\<close> is Python's \<^verbatim>\<open>ValueError\<close>. (Signs,
  surrounding whitespace and underscores, which \<^verbatim>\<open>int\<close> also accepts, do not occur in
  the strings the module converts: they are produced by \<^verbatim>\<open>strftime('%Y%m%d')\<close>.)
\<close>

fun digits_value :: "nat \<Rightarrow> string \<Rightarrow> nat option" where
  "digits_value acc [] = Some acc"
| "digits_value acc (c # cs) =
     (case digit_val c of None \<Rightarrow> None | Some d \<Rightarrow> digits_value (10 * acc + d) cs)"

definition int_of_str :: "string \<Rightarrow> int option" where
  "int_of_str s = (if s = [] then None else map_option int (digits_value 0 s))"

subsection \<open>Cells\<close>

text \<open>
  A timestamp is a calendar date with the time of day in nanoseconds: (year, month, day,
  nanosecond of the day). The lexicographic order on the four components is the
  chronological order.
\<close>

type_synonym timestamp = "int \<times> int \<times> int \<times> int"

definition ts_year :: "timestamp \<Rightarrow> int" where
  "ts_year t = fst t"

definition ts_month :: "timestamp \<Rightarrow> int" where
  "ts_month t = fst (snd t)"

definition ts_day :: "timestamp \<Rightarrow> int" where
  "ts_day t = fst (snd (snd t))"


text \<open>
  The timestamps pandas can hold: \<^verbatim>\<open>Timestamp.min\<close> is in 1677, \<^verbatim>\<open>Timestamp.max\<close> in 2262.
\<close>

definition valid_timestamp :: "timestamp \<Rightarrow> bool" where
  "valid_timestamp t =
     (1677 \<le> ts_year t \<and> ts_year t \<le> 2262 \<and> 1 \<le> ts_month t \<and> ts_month t \<le> 12 \<and>
      1 \<le> ts_day t \<and> ts_day t \<le> 31)"

text \<open>
  A cell of a frame. \<open>Null\<close> is pandas' missing value (\<^verbatim>\<open>NaN\<close>, \<^verbatim>\<open>None\<close>, \<^verbatim>\<open>NaT\<close>).
  Floating-point numbers are modelled by rationals; rounding is not modelled, and no
  statement below depends on the value of a product of floats.
\<close>

datatype cell = Null | IntV int | FloatV rat | StrV string | TsV timestamp

type_synonym frame = "(string \<times> cell list) list"

text \<open>
  What the module takes from the pandas library and the Python runtime, and this
  repository does not define:
  \<^item> \<open>to_datetime\<close>: the result of \<^verbatim>\<open>pd.to_datetime(..., errors='coerce')\<close> on one
    string; \<open>None\<close> is \<^verbatim>\<open>NaT\<close>. (The module calls it with \<^verbatim>\<open>format='mixed'\<close> and, if
    that raises, with \<^verbatim>\<open>infer_datetime_format=True\<close>; both parse element by element.)
  \<^item> \<open>float_str\<close> and \<open>ts_str\<close>: \<^verbatim>\<open>str\<close> of a float and of a timestamp;
  \<^item> \<open>set_order\<close>: the order in which \<^verbatim>\<open>set(x)\<close> is iterated, for the list \<open>x\<close>;
  \<^item> \<open>group_order\<close>: the order in which \<^verbatim>\<open>groupby\<close> lists the group keys it found.
\<close>

record pandas_lib =
  to_datetime :: "string \<Rightarrow> timestamp option"
  float_str :: "rat \<Rightarrow> string"
  ts_str :: "timestamp \<Rightarrow> string"
  set_order :: "string list \<Rightarrow> string list"
  group_order :: "cell list \<Rightarrow> cell list"


text \<open>\<^verbatim>\<open>str(x)\<close>, as \<^verbatim>\<open>Series.astype(str)\<close> applies it to each cell.\<close>

definition cell_str :: "pandas_lib \<Rightarrow> cell \<Rightarrow> string" where
  "cell_str lib c =
     (case c of Null \<Rightarrow> ''nan'' | IntV i \<Rightarrow> int_str i | FloatV q \<Rightarrow> float_str lib q
      | StrV s \<Rightarrow> s | TsV t \<Rightarrow> ts_str lib t)"

definition astype_str :: "pandas_lib \<Rightarrow> cell list \<Rightarrow> cell list" where
  "astype_str lib vs = map (\<lambda>c. StrV (cell_str lib c)) vs"

text \<open>
  Arithmetic on cells: numbers multiply and subtract, a missing value gives a missing
  value, and anything else is \<^verbatim>\<open>TypeError\<close> (pandas' element-wise fallbacks on columns
  of Python objects are not modelled).
\<close>

fun cell_mul :: "cell \<Rightarrow> cell \<Rightarrow> cell option" where
  "cell_mul (IntV a) (IntV b) = Some (IntV (a * b))"
| "cell_mul (IntV a) (FloatV b) = Some (FloatV (of_int a * b))"
| "cell_mul (FloatV a) (IntV b) = Some (FloatV (a * of_int b))"
| "cell_mul (FloatV a) (FloatV b) = Some (FloatV (a * b))"
| "cell_mul Null (IntV b) = Some Null"
| "cell_mul Null (FloatV b) = Some Null"
| "cell_mul (IntV a) Null = Some Null"
| "cell_mul (FloatV a) Null = Some Null"
| "cell_mul Null Null = Some Null"
| "cell_mul _ _ = None"

fun one_minus :: "cell \<Rightarrow> cell option" where
  "one_minus (IntV a) = Some (IntV (1 - a))"
| "one_minus (FloatV a) = Some (FloatV (1 - a))"
| "one_minus Null = Some Null"
| "one_minus _ = None"

subsection \<open>Frames\<close>

definition labels :: "frame \<Rightarrow> string list" where
  "labels df = map fst df"

text \<open>\<^verbatim>\<open>len(df)\<close>: the number of rows.\<close>

definition nrows :: "frame \<Rightarrow> nat" where
  "nrows df = (case df of [] \<Rightarrow> 0 | (c, vs) # rest \<Rightarrow> length vs)"

text \<open>\<^verbatim>\<open>df.empty\<close>: no column or no row. \<^verbatim>\<open>pd.DataFrame()\<close> is the frame \<open>[]\<close>.\<close>

definition df_empty :: "frame \<Rightarrow> bool" where
  "df_empty df = (df = [] \<or> nrows df = 0)"

text \<open>
  A well-formed frame, as \<^verbatim>\<open>pd.read_csv\<close> returns it: pairwise distinct labels, and
  columns of one length.
\<close>

definition aligned :: "frame \<Rightarrow> bool" where
  "aligned df = (\<forall>vs\<in>set (map snd df). length vs = nrows df)"


text \<open>\<^verbatim>\<open>df[c]\<close>: the column, or \<^verbatim>\<open>KeyError\<close>.\<close>

definition get_col :: "frame \<Rightarrow> string \<Rightarrow> cell list option" where
  "get_col df c = map_of df c"

text \<open>\<^verbatim>\<open>df[c] = vs\<close>: an existing column is replaced in place, a new one is appended.\<close>

primrec set_col :: "frame \<Rightarrow> string \<Rightarrow> cell list \<Rightarrow> frame" where
  "set_col [] c vs = [(c, vs)]"
| "set_col (p # df) c vs = (if fst p = c then (c, vs) # df else p # set_col df c vs)"

text \<open>\<^verbatim>\<open>df[c] = v\<close> for a scalar \<open>v\<close>: every row gets \<open>v\<close>.\<close>

definition set_const :: "frame \<Rightarrow> string \<Rightarrow> cell \<Rightarrow> frame" where
  "set_const df c v = set_col df c (replicate (nrows df) v)"

text \<open>\<^verbatim>\<open>df.rename(columns=m)\<close>.\<close>

definition rename_label :: "(string \<times> string) list \<Rightarrow> string \<Rightarrow> string" where
  "rename_label m c = (case map_of m c of Some c' \<Rightarrow> c' | None \<Rightarrow> c)"

definition rename :: "(string \<times> string) list \<Rightarrow> frame \<Rightarrow> frame" where
  "rename m df = map (\<lambda>(c, vs). (rename_label m c, vs)) df"

text \<open>\<^verbatim>\<open>df[cs]\<close> for a list of labels: \<^verbatim>\<open>KeyError\<close> if one is missing.\<close>

definition select_columns :: "frame \<Rightarrow> string list \<Rightarrow> frame option" where
  "select_columns df cs = those (map (\<lambda>c. map_option (\<lambda>vs. (c, vs)) (get_col df c)) cs)"

text \<open>\<^verbatim>\<open>[col for col in target if col in df.columns]\<close>.\<close>

definition available :: "frame \<Rightarrow> string list \<Rightarrow> string list" where
  "available df target = filter (\<lambda>c. c \<in> set (labels df)) target"

text \<open>\<^verbatim>\<open>df.drop(columns=cs, errors='ignore')\<close>.\<close>

definition drop_columns :: "frame \<Rightarrow> string list \<Rightarrow> frame" where
  "drop_columns df cs = filter (\<lambda>(c, vs). c \<notin> set cs) df"

text \<open>\<^verbatim>\<open>s.fillna(v)\<close>.\<close>

definition fillna :: "cell \<Rightarrow> cell list \<Rightarrow> cell list" where
  "fillna v vs = map (\<lambda>c. if c = Null then v else c) vs"


text \<open>The values of an iterable in order of first appearance (\<^verbatim>\<open>Series.unique()\<close>).\<close>

fun unique_seen :: "'a list \<Rightarrow> 'a list \<Rightarrow> 'a list" where
  "unique_seen seen [] = []"
| "unique_seen seen (x # xs) =
     (if x \<in> set seen then unique_seen seen xs else x # unique_seen (x # seen) xs)"

definition unique :: "'a list \<Rightarrow> 'a list" where
  "unique xs = unique_seen [] xs"

subsection \<open>Merging, grouping, concatenating, deduplicating\<close>

text \<open>
  \<^verbatim>\<open>pd.merge(left, right, ..., how=...)\<close>. The row pairs of the join: for each left
  row in order, the right rows with an equal key in order (a missing key matches a
  missing key, as in pandas); a left row without a match is kept with no partner in a
  left join and dropped in an inner join.
\<close>

datatype how = Inner | Left

definition match_rows :: "cell list \<Rightarrow> cell \<Rightarrow> nat list" where
  "match_rows rkeys k = map fst (filter (\<lambda>(j, k'). k' = k) (enumerate 0 rkeys))"

definition join_pairs :: "how \<Rightarrow> cell list \<Rightarrow> cell list \<Rightarrow> (nat \<times> nat option) list" where
  "join_pairs h lkeys rkeys =
     concat (map (\<lambda>(i, k).
        (case match_rows rkeys k of
           [] \<Rightarrow> (case h of Left \<Rightarrow> [(i, None)] | Inner \<Rightarrow> [])
         | j # js \<Rightarrow> map (\<lambda>j'. (i, Some j')) (j # js)))
       (enumerate 0 lkeys))"

definition take_left :: "(nat \<times> nat option) list \<Rightarrow> cell list \<Rightarrow> cell list" where
  "take_left pairs vs = map (\<lambda>(i, j). vs ! i) pairs"

definition take_right :: "(nat \<times> nat option) list \<Rightarrow> cell list \<Rightarrow> cell list" where
  "take_right pairs vs = map (\<lambda>(i, j). case j of None \<Rightarrow> Null | Some j' \<Rightarrow> vs ! j') pairs"

text \<open>
  The columns of a merge result: the left columns, then the right ones; a label on both
  sides gets the suffix \<^verbatim>\<open>_x\<close> on the left and \<^verbatim>\<open>_y\<close> on the right. pandas raises
  \<^verbatim>\<open>MergeError\<close> when the suffixes produce a repeated label on one side.
\<close>

definition merge_columns ::
  "how \<Rightarrow> frame \<Rightarrow> frame \<Rightarrow> cell list \<Rightarrow> cell list \<Rightarrow> frame option" where
  "merge_columns h left right lkeys rkeys =
     (let overlap = filter (\<lambda>c. c \<in> set (labels right)) (labels left);
          lnames = map (\<lambda>c. if c \<in> set overlap then c @ ''_x'' else c) (labels left);
          rnames = map (\<lambda>c. if c \<in> set overlap then c @ ''_y'' else c) (labels right);
          pairs = join_pairs h lkeys rkeys
      in if overlap \<noteq> [] \<and> (\<not> distinct lnames \<or> \<not> distinct rnames) then None
         else Some (zip lnames (map (take_left pairs) (map snd left)) @
                    zip rnames (map (take_right pairs) (map snd right))))"

text \<open>
  \<^verbatim>\<open>pd.merge(left, right, on=key, how=h)\<close>: the key column appears once, with the left
  frame's values.
\<close>

definition merge_on :: "how \<Rightarrow> frame \<Rightarrow> frame \<Rightarrow> string \<Rightarrow> frame option" where
  "merge_on h left right key =
     do {
       lkeys \<leftarrow> get_col left key;
       rkeys \<leftarrow> get_col right key;
       merge_columns h left (drop_columns right [key]) lkeys rkeys
     }"

text \<open>
  \<^verbatim>\<open>pd.merge(left, right, left_on=lk, right_on=rk, how=h)\<close> for two different key
  labels: both key columns are kept.
\<close>

definition merge_lr :: "how \<Rightarrow> frame \<Rightarrow> frame \<Rightarrow> string \<Rightarrow> string \<Rightarrow> frame option" where
  "merge_lr h left right lk rk =
     do {
       lkeys \<leftarrow> get_col left lk;
       rkeys \<leftarrow> get_col right rk;
       merge_columns h left right lkeys rkeys
     }"

text \<open>
  \<^verbatim>\<open>df.groupby(key)[col].apply(f).reset_index(name=out)\<close>: one row per key that is
  not missing, with \<open>f\<close> applied to the values of the key's rows in row order.
\<close>

definition group_values :: "cell list \<Rightarrow> cell list \<Rightarrow> cell \<Rightarrow> cell list" where
  "group_values keys vals k = map snd (filter (\<lambda>(k', v). k' = k) (zip keys vals))"

definition groupby_apply ::
  "pandas_lib \<Rightarrow> string \<Rightarrow> cell list \<Rightarrow> cell list \<Rightarrow> (cell list \<Rightarrow> cell option) \<Rightarrow>
     string \<Rightarrow> frame option" where
  "groupby_apply lib key keys vals f out =
     (let ks = group_order lib (filter (\<lambda>k. k \<noteq> Null) keys) in
      do {
        agg \<leftarrow> those (map (\<lambda>k. f (group_values keys vals k)) ks);
        Some [(key, ks), (out, agg)]
      })"




text \<open>The whole rows of a frame.\<close>

definition rows_of :: "frame \<Rightarrow> cell list list" where
  "rows_of df = map (\<lambda>i. map (\<lambda>(c, vs). vs ! i) df) [0..<nrows df]"



section \<open>The transformation module\<close>

subsection \<open>Source loader\<close>

text \<open>
  \<^verbatim>\<open>standardize_column_names\<close>: each label is lowercased, stripped, and loses its spaces
  and underscores. (The function guards against \<^verbatim>\<open>df is None\<close>; its only caller passes
  the frame \<^verbatim>\<open>pd.read_csv\<close> returned.)
\<close>

definition standardize_name :: "string \<Rightarrow> string" where
  "standardize_name col =
     str_remove (CHR ''_'') (str_remove (CHR '' '') (str_strip (str_lower col)))"

definition standardize_labels :: "string list \<Rightarrow> string list" where
  "standardize_labels cols = map standardize_name cols"





subsection \<open>Date dimension\<close>

text \<open>\<^verbatim>\<open>t.strftime('%Y%m%d')\<close> and the date key \<^verbatim>\<open>int(t.strftime('%Y%m%d'))\<close>.\<close>

definition strftime_Ymd :: "timestamp \<Rightarrow> string" where
  "strftime_Ymd t =
     dec_digits 4 (nat (ts_year t)) @ dec_digits 2 (nat (ts_month t)) @
     dec_digits 2 (nat (ts_day t))"

definition sk_date_of :: "timestamp \<Rightarrow> int option" where
  "sk_date_of t = int_of_str (strftime_Ymd t)"

definition month_names :: "string list" where
  "month_names = [''January'', ''February'', ''March'', ''April'', ''May'', ''June'', ''July'',
                  ''August'', ''September'', ''October'', ''November'', ''December'']"

text \<open>\<^verbatim>\<open>t.month_name()\<close>; a timestamp of pandas has a month from 1 to 12.\<close>

definition month_name :: "timestamp \<Rightarrow> string option" where
  "month_name t =
     (if 1 \<le> ts_month t \<and> ts_month t \<le> 12 then Some (month_names ! nat (ts_month t - 1))
      else None)"

definition quarter :: "timestamp \<Rightarrow> int" where
  "quarter t = (ts_month t - 1) div 3 + 1"

text \<open>
  \<^verbatim>\<open>pd.to_datetime(col, errors='coerce')\<close> on a column of strings: a timestamp, or the
  missing value \<^verbatim>\<open>NaT\<close>.
\<close>

definition parse_dates :: "pandas_lib \<Rightarrow> cell list \<Rightarrow> timestamp option list" where
  "parse_dates lib vs = map (\<lambda>c. to_datetime lib (cell_str lib c)) vs"

text \<open>\<^verbatim>\<open>.dropna()\<close> on the parsed column.\<close>

definition dropna :: "'a option list \<Rightarrow> 'a list" where
  "dropna xs = concat (map (\<lambda>x. case x of None \<Rightarrow> [] | Some t \<Rightarrow> [t]) xs)"

text \<open>
  \<^verbatim>\<open>create_date_dimension\<close>. The function assigns to a column of the frame it was given,
  so it returns the caller's frame as it is after the call together with the dimension.
  The dimension starts with the single column \<^verbatim>\<open>full_date\<close>, which \<^verbatim>\<open>sort_values\<close>
  orders.
\<close>

definition create_date_dimension :: "pandas_lib \<Rightarrow> frame \<Rightarrow> (frame \<times> frame) option" where
  "create_date_dimension lib orders_df =
     (if df_empty orders_df then Some (orders_df, [])
      else
        do {
          orderdate \<leftarrow> get_col orders_df ''orderdate'';
          let orders_df = set_col orders_df ''orderdate'' (astype_str lib orderdate);
          orderdate \<leftarrow> get_col orders_df ''orderdate'';
          let dates = unique (dropna (parse_dates lib orderdate));
          let date_dim = [(''full_date'', map TsV dates)];
          let dates = sort dates;
          let date_dim = [(''full_date'', map TsV dates)];
          sk_date \<leftarrow> those (map sk_date_of dates);
          let date_dim = set_col date_dim ''sk_date'' (map IntV sk_date);
          let date_dim = set_col date_dim ''year'' (map (\<lambda>t. IntV (ts_year t)) dates);
          let date_dim = set_col date_dim ''month'' (map (\<lambda>t. IntV (ts_month t)) dates);
          names \<leftarrow> those (map month_name dates);
          let date_dim = set_col date_dim ''month_name'' (map StrV names);
          let date_dim = set_col date_dim ''quarter'' (map (\<lambda>t. IntV (quarter t)) dates);
          Some (orders_df, date_dim)
        })"

subsection \<open>Client dimension\<close>

text \<open>\<^verbatim>\<open>.astype(str).str.upper().str.strip()\<close> on one cell.\<close>

definition clean_key :: "pandas_lib \<Rightarrow> cell \<Rightarrow> cell" where
  "clean_key lib c = StrV (str_strip (str_upper (cell_str lib c)))"

text \<open>The surrogate keys \<^verbatim>\<open>range(1, len(df) + 1)\<close>.\<close>

definition key_range :: "frame \<Rightarrow> cell list" where
  "key_range df = map IntV [1..int (nrows df)]"

definition ensure_geo :: "frame \<Rightarrow> string \<Rightarrow> frame" where
  "ensure_geo df geo_col =
     (if geo_col \<notin> set (labels df) then set_const df geo_col (StrV ''Unknown'') else df)"

definition create_client_dimension :: "pandas_lib \<Rightarrow> frame \<Rightarrow> frame option" where
  "create_client_dimension lib customers_df =
     (if df_empty customers_df then Some []
      else
        do {
          let client_dim = customers_df;
          let client_dim = rename [(''customerid'', ''bk_customer_id''),
                                   (''companyname'', ''company_name'')] client_dim;
          ids \<leftarrow> get_col client_dim ''bk_customer_id'';
          let client_dim = set_col client_dim ''bk_customer_id'' (map (clean_key lib) ids);
          let client_dim = foldl ensure_geo client_dim [''city'', ''country'', ''region''];
          let client_dim = set_col client_dim ''sk_client'' (key_range client_dim);
          let target_columns = [''sk_client'', ''bk_customer_id'', ''company_name'', ''city'',
                                ''country'', ''region''];
          let available_columns = available client_dim target_columns;
          select_columns client_dim available_columns
        })"

subsection \<open>Territory enrichment and employee dimension\<close>

text \<open>\<^verbatim>\<open>df[c] = df[c].astype(str).str.strip()\<close>, when the column is there.\<close>

definition clean_text :: "pandas_lib \<Rightarrow> frame \<Rightarrow> string \<Rightarrow> frame" where
  "clean_text lib df c =
     (case get_col df c of
        None \<Rightarrow> df
      | Some vs \<Rightarrow> set_col df c (map (\<lambda>v. StrV (str_strip (cell_str lib v))) vs))"

text \<open>The strings of a list of cells; \<^verbatim>\<open>str.join\<close> raises \<^verbatim>\<open>TypeError\<close> on anything else.\<close>

definition cell_texts :: "cell list \<Rightarrow> string list option" where
  "cell_texts vs = those (map (\<lambda>v. case v of StrV s \<Rightarrow> Some s | _ \<Rightarrow> None) vs)"

text \<open>\<^verbatim>\<open>lambda x: ', '.join(x)\<close> and \<^verbatim>\<open>lambda x: ', '.join(set(x))\<close>.\<close>

definition join_all :: "cell list \<Rightarrow> cell option" where
  "join_all x = map_option (\<lambda>ss. StrV (str_join '', '' ss)) (cell_texts x)"

definition join_set :: "pandas_lib \<Rightarrow> cell list \<Rightarrow> cell option" where
  "join_set lib x = map_option (\<lambda>ss. StrV (str_join '', '' (set_order lib ss))) (cell_texts x)"

text \<open>
  The assignment rows with their territory and region descriptions: the two left merges
  and the text clean-up that \<^verbatim>\<open>add_territory_info\<close> performs before it aggregates.
\<close>

definition territory_rows :: "pandas_lib \<Rightarrow> frame \<Rightarrow> frame \<Rightarrow> frame \<Rightarrow> frame option" where
  "territory_rows lib emp_terr_df territories_df regions_df =
     do {
       merged \<leftarrow> merge_on Left emp_terr_df territories_df ''territoryid'';
       merged \<leftarrow> (if \<not> df_empty regions_df \<and> ''regionid'' \<in> set (labels merged)
                    then merge_on Left merged regions_df ''regionid''
                    else Some (set_const merged ''regiondescription'' (StrV ''Unknown'')));
       let merged = clean_text lib merged ''territorydescription'';
       let merged = clean_text lib merged ''regiondescription'';
       Some merged
     }"

definition add_territory_info ::
  "pandas_lib \<Rightarrow> frame \<Rightarrow> frame \<Rightarrow> frame \<Rightarrow> frame \<Rightarrow> frame option" where
  "add_territory_info lib employee_dim emp_terr_df territories_df regions_df =
     (if df_empty emp_terr_df \<or> df_empty territories_df
      then
        (let employee_dim = set_const employee_dim ''territories'' (StrV ''Unknown'');
             employee_dim = set_const employee_dim ''sales_region'' (StrV ''Unknown'')
         in Some employee_dim)
      else
        do {
          merged \<leftarrow> territory_rows lib emp_terr_df territories_df regions_df;
          employeeid \<leftarrow> get_col merged ''employeeid'';
          territorydescription \<leftarrow> get_col merged ''territorydescription'';
          territories_per_employee \<leftarrow>
            groupby_apply lib ''employeeid'' employeeid territorydescription join_all
              ''territories'';
          regiondescription \<leftarrow> get_col merged ''regiondescription'';
          regions_per_employee \<leftarrow>
            groupby_apply lib ''employeeid'' employeeid regiondescription (join_set lib)
              ''sales_region'';
          employee_dim \<leftarrow>
            merge_lr Left employee_dim territories_per_employee ''bk_employee_id'' ''employeeid'';
          employee_dim \<leftarrow>
            merge_lr Left employee_dim regions_per_employee ''bk_employee_id'' ''employeeid'';
          territories \<leftarrow> get_col employee_dim ''territories'';
          let employee_dim =
            set_col employee_dim ''territories'' (fillna (StrV ''No Territory'') territories);
          sales_region \<leftarrow> get_col employee_dim ''sales_region'';
          let employee_dim =
            set_col employee_dim ''sales_region'' (fillna (StrV ''No Region'') sales_region);
          Some (drop_columns employee_dim [''employeeid_x'', ''employeeid_y''])
        })"

text \<open>\<^verbatim>\<open>a.astype(str) + ' ' + b.astype(str)\<close>, row by row.\<close>

definition full_names :: "pandas_lib \<Rightarrow> cell list \<Rightarrow> cell list \<Rightarrow> cell list" where
  "full_names lib firsts lasts =
     map (\<lambda>(a, b). StrV (cell_str lib a @ '' '' @ cell_str lib b)) (zip firsts lasts)"

definition create_employee_dimension ::
  "pandas_lib \<Rightarrow> frame \<Rightarrow> frame \<Rightarrow> frame \<Rightarrow> frame \<Rightarrow> frame option" where
  "create_employee_dimension lib employees_df emp_terr_df territories_df regions_df =
     (if df_empty employees_df then Some []
      else
        do {
          let employee_dim = employees_df;
          let employee_dim = rename [(''employeeid'', ''bk_employee_id''),
                                     (''firstname'', ''first_name''),
                                     (''lastname'', ''last_name'')] employee_dim;
          first_name \<leftarrow> get_col employee_dim ''first_name'';
          last_name \<leftarrow> get_col employee_dim ''last_name'';
          let employee_dim =
            set_col employee_dim ''Employee_name'' (full_names lib first_name last_name);
          let employee_dim = set_col employee_dim ''sk_employee'' (key_range employee_dim);
          employee_dim \<leftarrow>
            add_territory_info lib employee_dim emp_terr_df territories_df regions_df;
          let target_columns = [''sk_employee'', ''bk_employee_id'', ''Employee_name'', ''title'',
                                ''city'', ''country'', ''sales_region'', ''territories''];
          let available_columns = available employee_dim target_columns;
          select_columns employee_dim available_columns
        })"

subsection \<open>Sales fact\<close>

text \<open>The price column after the merge of order lines and order headers.\<close>

definition price_column_of :: "frame \<Rightarrow> string option" where
  "price_column_of sales_fact =
     (if ''unitprice_x'' \<in> set (labels sales_fact) then Some ''unitprice_x''
      else if ''unitprice'' \<in> set (labels sales_fact) then Some ''unitprice''
      else None)"

text \<open>\<^verbatim>\<open>(price * quantity) * (1 - discount)\<close>, column-wise.\<close>

definition total_amounts :: "cell list \<Rightarrow> cell list \<Rightarrow> cell list \<Rightarrow> cell list option" where
  "total_amounts price quantity discount =
     do {
       gross \<leftarrow> those (map (\<lambda>(p, q). cell_mul p q) (zip price quantity));
       factor \<leftarrow> those (map one_minus discount);
       those (map (\<lambda>(g, f). cell_mul g f) (zip gross factor))
     }"

text \<open>
  \<^verbatim>\<open>lambda x: 'Delivered' if pd.notnull(x) and str(x).strip() != '' else 'Not Delivered'\<close>.
\<close>

definition delivery_status :: "pandas_lib \<Rightarrow> cell \<Rightarrow> cell" where
  "delivery_status lib x =
     (if x \<noteq> Null \<and> str_strip (cell_str lib x) \<noteq> [] then StrV ''Delivered''
      else StrV ''Not Delivered'')"

text \<open>
  The order lines with their measures: the part of \<^verbatim>\<open>create_sales_fact\<close> from the total
  amount to the clean-up of the customer id.
\<close>

definition add_measures :: "pandas_lib \<Rightarrow> frame \<Rightarrow> string \<Rightarrow> frame option" where
  "add_measures lib sales_fact price_column =
     do {
       price \<leftarrow> get_col sales_fact price_column;
       quantity \<leftarrow> get_col sales_fact ''quantity'';
       discount \<leftarrow> get_col sales_fact ''discount'';
       total_amount \<leftarrow> total_amounts price quantity discount;
       let sales_fact = set_col sales_fact ''total_amount'' total_amount;
       shippeddate \<leftarrow> get_col sales_fact ''shippeddate'';
       let sales_fact =
         set_col sales_fact ''delivery_status'' (map (delivery_status lib) shippeddate);
       Some (case get_col sales_fact ''customerid'' of
               None \<Rightarrow> sales_fact
             | Some customerid \<Rightarrow>
                 set_col sales_fact ''customerid'' (map (clean_key lib) customerid))
     }"

text \<open>
  The link to a dimension: a left merge with the dimension's natural and surrogate key
  columns, skipped when the dimension is empty.
\<close>

definition link_dimension :: "frame \<Rightarrow> frame \<Rightarrow> string \<Rightarrow> string \<Rightarrow> string \<Rightarrow> frame option" where
  "link_dimension sales_fact dimension left_on bk sk =
     (if \<not> df_empty dimension
      then
        do {
          dim_keys \<leftarrow> select_columns dimension [bk, sk];
          merge_lr Left sales_fact dim_keys left_on bk
        }
      else Some sales_fact)"

text \<open>
  The date key of one order date: \<^verbatim>\<open>.dt.strftime('%Y%m%d').fillna(19000101).astype(int)\<close>
  on the parsed column.
\<close>

definition date_key :: "timestamp option \<Rightarrow> cell option" where
  "date_key dt =
     (case dt of None \<Rightarrow> Some (IntV 19000101)
      | Some t \<Rightarrow> map_option IntV (sk_date_of t))"

text \<open>
  The end of \<^verbatim>\<open>create_sales_fact\<close>: date key, renaming, surrogate key and column selection.
\<close>

definition finish_fact :: "pandas_lib \<Rightarrow> frame \<Rightarrow> string \<Rightarrow> frame option" where
  "finish_fact lib sales_fact price_column =
     do {
       orderdate \<leftarrow> get_col sales_fact ''orderdate'';
       let sales_fact = set_col sales_fact ''orderdate'' (astype_str lib orderdate);
       orderdate \<leftarrow> get_col sales_fact ''orderdate'';
       let dt = parse_dates lib orderdate;
       let sales_fact =
         set_col sales_fact ''dt'' (map (\<lambda>d. case d of None \<Rightarrow> Null | Some t \<Rightarrow> TsV t) dt);
       sk_date \<leftarrow> those (map date_key dt);
       let sales_fact = set_col sales_fact ''sk_date'' sk_date;
       let sales_fact = rename [(''orderid'', ''bk_order_id''),
                                (price_column, ''unit_price'')] sales_fact;
       let sales_fact = set_col sales_fact ''fact_id'' (key_range sales_fact);
       let final_columns = [''fact_id'', ''bk_order_id'', ''sk_client'', ''sk_employee'',
                            ''sk_date'', ''quantity'', ''unit_price'', ''discount'',
                            ''total_amount'', ''delivery_status''];
       let available_columns = available sales_fact final_columns;
       select_columns sales_fact available_columns
     }"

text \<open>
  The order lines as they stand after the two dimension lookups, for a given price
  column.
\<close>

definition linked_lines ::
  "pandas_lib \<Rightarrow> frame \<Rightarrow> string \<Rightarrow> frame \<Rightarrow> frame \<Rightarrow> frame option" where
  "linked_lines lib sales_fact price_column client_dim employee_dim =
     do {
       sales_fact \<leftarrow> add_measures lib sales_fact price_column;
       sales_fact \<leftarrow>
         link_dimension sales_fact client_dim ''customerid'' ''bk_customer_id'' ''sk_client'';
       link_dimension sales_fact employee_dim ''employeeid'' ''bk_employee_id'' ''sk_employee''
     }"

definition create_sales_fact ::
  "pandas_lib \<Rightarrow> frame \<Rightarrow> frame \<Rightarrow> frame \<Rightarrow> frame \<Rightarrow> frame option" where
  "create_sales_fact lib orders_df details_df client_dim employee_dim =
     (if df_empty orders_df \<or> df_empty details_df then Some []
      else
        do {
          sales_fact \<leftarrow> merge_on Inner details_df orders_df ''orderid'';
          (case price_column_of sales_fact of
             None \<Rightarrow> Some []
           | Some price_column \<Rightarrow>
               do {
                 sales_fact \<leftarrow> linked_lines lib sales_fact price_column client_dim employee_dim;
                 finish_fact lib sales_fact price_column
               })
        })"

section \<open>Inputs of the statements and examples\<close>

text \<open>
  A column name whose only whitespace characters are plain spaces (no tab, newline or
  other control character).
\<close>

definition only_plain_spaces :: "string \<Rightarrow> bool" where
  "only_plain_spaces s = (ascii_text s \<and> (\<forall>c\<in>set s. py_isspace c \<longrightarrow> c = CHR '' ''))"

text \<open>
  An instance of the library for the examples: its parser reads dates written
  \<^verbatim>\<open>YYYY-MM-DD\<close> and nothing else, and sets and groups are listed in order of last
  appearance.
\<close>

definition iso_date :: "string \<Rightarrow> timestamp option" where
  "iso_date s =
     (if length s = 10 \<and> s ! 4 = CHR ''-'' \<and> s ! 7 = CHR ''-''
      then
        (case (digits_value 0 (take 4 s), digits_value 0 (take 2 (drop 5 s)),
               digits_value 0 (drop 8 s)) of
           (Some y, Some m, Some d) \<Rightarrow>
             if 1677 \<le> y \<and> y \<le> 2262 \<and> 1 \<le> m \<and> m \<le> 12 \<and> 1 \<le> d \<and> d \<le> 31
             then Some (int y, int m, int d, 0) else None
         | _ \<Rightarrow> None)
      else None)"

definition example_lib :: pandas_lib where
  "example_lib =
     \<lparr>to_datetime = iso_date, float_str = (\<lambda>q. ''float''), ts_str = strftime_Ymd,
      set_order = remdups, group_order = remdups\<rparr>"

text \<open>An Orders table with three orders: two dated, one without an order date.\<close>

definition example_orders :: frame where
  "example_orders =
     [(''orderid'', [IntV 1, IntV 2, IntV 3]),
      (''customerid'', [StrV ''alfki'', StrV ''bonap '', StrV ''zzzzz'']),
      (''employeeid'', [IntV 5, IntV 6, IntV 5]),
      (''orderdate'', [StrV ''2013-07-04'', StrV ''2013-07-05'', Null]),
      (''shippeddate'', [StrV ''2013-07-09'', Null, StrV '' ''])]"

text \<open>The date dimension of the example orders.\<close>

definition example_date_dim :: frame where
  "example_date_dim =
     [(''full_date'', [TsV (2013, 7, 4, 0), TsV (2013, 7, 5, 0)]),
      (''sk_date'', [IntV 20130704, IntV 20130705]),
      (''year'', [IntV 2013, IntV 2013]),
      (''month'', [IntV 7, IntV 7]),
      (''month_name'', [StrV ''July'', StrV ''July'']),
      (''quarter'', [IntV 3, IntV 3])]"








section \<open>Properties of the string functions\<close>

lemma uppercase_bits: "c \<in> set ascii_uppercase \<Longrightarrow> digit6 c \<and> \<not> digit5 c"
  unfolding ascii_uppercase_def by (simp, elim disjE, simp_all)

lemma lowercase_bits: "c \<in> set ascii_lowercase \<Longrightarrow> digit6 c \<and> digit5 c"
  unfolding ascii_lowercase_def by (simp, elim disjE, simp_all)

lemma space_bits: "py_isspace c \<Longrightarrow> \<not> digit6 c"
  unfolding py_isspace_def by (simp, elim disjE, simp_all)

lemma char_lower_not_upper: "c \<notin> set ascii_uppercase \<Longrightarrow> char_lower c = c"
proof (cases "map_of (zip ascii_uppercase ascii_lowercase) c")
  case None
  then show ?thesis by (simp add: char_lower_def)
next
  case (Some d)
  assume out: "c \<notin> set ascii_uppercase"
  from Some have "(c, d) \<in> set (zip ascii_uppercase ascii_lowercase)" by (rule map_of_SomeD)
  then have "c \<in> set ascii_uppercase" by (rule set_zip_leftD)
  with out show ?thesis by simp
qed

lemma char_lower_range: "char_lower c = c \<or> char_lower c \<in> set ascii_lowercase"
proof (cases "map_of (zip ascii_uppercase ascii_lowercase) c")
  case None
  then show ?thesis by (simp add: char_lower_def)
next
  case (Some d)
  then have "(c, d) \<in> set (zip ascii_uppercase ascii_lowercase)" by (rule map_of_SomeD)
  then have "d \<in> set ascii_lowercase" by (rule set_zip_rightD)
  with Some show ?thesis by (simp add: char_lower_def)
qed

lemma char_lower_fixed: "d \<in> set ascii_lowercase \<Longrightarrow> char_lower d = d"
  using lowercase_bits[of d] uppercase_bits[of d] char_lower_not_upper[of d] by blast

lemma char_lower_idem: "char_lower (char_lower c) = char_lower c"
  using char_lower_range[of c] char_lower_fixed by auto

lemma char_lower_space: "py_isspace (char_lower c) \<Longrightarrow> py_isspace c"
  using char_lower_range[of c] lowercase_bits[of "char_lower c"] space_bits[of "char_lower c"]
  by auto

lemma char_lower_space_eq: "py_isspace c \<Longrightarrow> char_lower c = c"
  using space_bits[of c] uppercase_bits[of c] char_lower_not_upper[of c] by blast

lemma str_strip_subset: "set (str_strip s) \<subseteq> set s"
proof -
  have "set (dropWhile py_isspace (rev (dropWhile py_isspace s)))
          \<subseteq> set (rev (dropWhile py_isspace s))"
    by (rule set_dropWhileD[THEN subsetI])
  also have "\<dots> \<subseteq> set s" using set_dropWhileD by fastforce
  finally show ?thesis by (simp add: str_strip_def)
qed

lemma dropWhile_none: "\<forall>x\<in>set xs. \<not> P x \<Longrightarrow> dropWhile P xs = xs"
  by (cases xs) auto

lemma str_strip_id: "\<forall>c\<in>set s. \<not> py_isspace c \<Longrightarrow> str_strip s = s"
  by (simp add: str_strip_def dropWhile_none)

lemma standardize_name_chars:
  "c \<in> set (standardize_name n) \<Longrightarrow>
     c \<noteq> CHR '' '' \<and> c \<noteq> CHR ''_'' \<and> c \<in> char_lower ` set n"
  using str_strip_subset[of "str_lower n"]
  by (auto simp add: standardize_name_def str_remove_def str_lower_def)

lemma standardize_name_idem:
  assumes "only_plain_spaces n"
  shows "standardize_name (standardize_name n) = standardize_name n"
proof -
  let ?s = "standardize_name n"
  have low: "str_lower ?s = ?s"
    unfolding str_lower_def
    by (rule map_idI) (use standardize_name_chars[of _ n] char_lower_idem in auto)
  have nosp: "\<forall>c\<in>set ?s. \<not> py_isspace c"
  proof
    fix c assume c: "c \<in> set ?s"
    then obtain d where d: "d \<in> set n" "c = char_lower d" and ne: "c \<noteq> CHR '' ''"
      using standardize_name_chars[of c n] by auto
    show "\<not> py_isspace c"
    proof
      assume sp: "py_isspace c"
      then have "py_isspace d" using d char_lower_space by simp
      then have "d = CHR '' ''" using assms d by (auto simp add: only_plain_spaces_def)
      then show False
        using d ne by (simp add: char_lower_def ascii_uppercase_def ascii_lowercase_def)
    qed
  qed
  have rm: "str_remove (CHR ''_'') (str_remove (CHR '' '') ?s) = ?s"
    using standardize_name_chars[of _ n] by (auto simp add: str_remove_def filter_id_conv)
  show ?thesis
    using low str_strip_id[OF nosp] rm
    by (simp add: standardize_name_def[of ?s])
qed

section \<open>Properties of the date key\<close>

lemma digit_val_char: "d < 10 \<Longrightarrow> digit_val (digit_char d) = Some d"
proof -
  assume "d < 10"
  then have "d = 0 \<or> d = 1 \<or> d = 2 \<or> d = 3 \<or> d = 4 \<or> d = 5 \<or> d = 6 \<or> d = 7
    \<or> d = 8 \<or> d = 9" by arith
  then show ?thesis
    by (elim disjE) (simp_all add: digit_val_def digit_char_def decimal_digits_def)
qed

lemma digits_value_append:
  "digits_value acc (xs @ ys) =
     (case digits_value acc xs of None \<Rightarrow> None | Some a \<Rightarrow> digits_value a ys)"
  by (induction xs arbitrary: acc) (auto split: option.splits)

lemma digits_value_dec_digits:
  "digits_value acc (dec_digits n k) = Some (acc * 10 ^ n + k mod 10 ^ n)"
proof (induction n arbitrary: k)
  case 0
  then show ?case by simp
next
  case (Suc n)
  have "k mod 10 ^ Suc n = 10 * ((k div 10) mod 10 ^ n) + k mod 10"
    by (simp add: mod_mult2_eq)
  then show ?case
    by (simp add: digits_value_append Suc digit_val_char algebra_simps)
qed

lemma dec_digits_nonempty: "dec_digits (Suc n) k \<noteq> []"
  by simp

lemma sk_date_of_valid:
  assumes "valid_timestamp t"
  shows "sk_date_of t = Some (ts_year t * 10000 + ts_month t * 100 + ts_day t)"
proof -
  define y where "y = nat (ts_year t)"
  define m where "m = nat (ts_month t)"
  define d where "d = nat (ts_day t)"
  have y: "ts_year t = int y" and m: "ts_month t = int m" and d: "ts_day t = int d"
    using assms by (simp_all add: valid_timestamp_def y_def m_def d_def)
  have b: "y < 10000" "m < 100" "d < 100"
    using assms unfolding valid_timestamp_def y_def m_def d_def by linarith+
  have "digits_value 0 (strftime_Ymd t) = Some ((y * 100 + m) * 100 + d)"
    unfolding strftime_Ymd_def y m d using b
    by (simp add: digits_value_append digits_value_dec_digits)
  moreover have "strftime_Ymd t \<noteq> []"
    unfolding strftime_Ymd_def by (simp add: numeral_2_eq_2)
  ultimately show ?thesis
    by (simp add: sk_date_of_def int_of_str_def y m d)
qed


section \<open>Properties of frames and of the library instance\<close>

lemma get_col_set_col:
  "get_col (set_col df c vs) c' = (if c' = c then Some vs else get_col df c')"
  by (induction df) (auto simp add: get_col_def)


lemma those_map_total:
  "\<forall>x\<in>set xs. f x = Some (g x) \<Longrightarrow> those (map f xs) = Some (map g xs)"
  by (induction xs) auto








lemma iso_date_0704: "iso_date ''2013-07-04'' = Some (2013, 7, 4, 0)"
  by (simp add: iso_date_def digit_val_def decimal_digits_def)

lemma iso_date_0705: "iso_date ''2013-07-05'' = Some (2013, 7, 5, 0)"
  by (simp add: iso_date_def digit_val_def decimal_digits_def)

lemma iso_date_nan: "iso_date ''nan'' = None"
  by (simp add: iso_date_def)

lemma sk_date_0704: "sk_date_of (2013, 7, 4, ns) = Some 20130704"
  using sk_date_of_valid[of "(2013, 7, 4, ns)"]
  by (simp add: valid_timestamp_def ts_year_def ts_month_def ts_day_def)

lemma sk_date_0705: "sk_date_of (2013, 7, 5, ns) = Some 20130705"
  using sk_date_of_valid[of "(2013, 7, 5, ns)"]
  by (simp add: valid_timestamp_def ts_year_def ts_month_def ts_day_def)


lemma example_date_dimension:
  "create_date_dimension example_lib example_orders =
     Some (set_col example_orders ''orderdate''
             [StrV ''2013-07-04'', StrV ''2013-07-05'', StrV ''nan''], example_date_dim)"
  by (simp add: create_date_dimension_def example_orders_def example_lib_def df_empty_def
      nrows_def get_col_def astype_str_def cell_str_def parse_dates_def dropna_def unique_def
      iso_date_0704 iso_date_0705 iso_date_nan sk_date_0704 sk_date_0705 month_name_def
      month_names_def quarter_def ts_year_def ts_month_def ts_day_def example_date_dim_def)

subsection \<open>Columns\<close>

lemma get_col_labels: "get_col df c = Some vs \<Longrightarrow> c \<in> set (labels df)"
  by (auto simp add: get_col_def labels_def dest: map_of_SomeD intro: rev_image_eqI)

lemma get_col_None: "get_col df c = None \<longleftrightarrow> c \<notin> set (labels df)"
  by (simp add: get_col_def labels_def map_of_eq_None_iff)



lemma labels_set_col:
  "labels (set_col df c vs) = (if c \<in> set (labels df) then labels df else labels df @ [c])"
  by (induction df) (auto simp add: labels_def)




lemma aligned_set_col_first: "aligned (set_col [] c vs)"
  by (simp add: aligned_def nrows_def)

lemma distinct_labels_set_col: "distinct (labels df) \<Longrightarrow> distinct (labels (set_col df c vs))"
  by (simp add: labels_set_col)




lemma labels_set_const:
  "labels (set_const df c v) = (if c \<in> set (labels df) then labels df else labels df @ [c])"
  by (simp add: set_const_def labels_set_col)

subsection \<open>Renaming\<close>

lemma labels_rename: "labels (rename m df) = map (rename_label m) (labels df)"
  by (simp add: rename_def labels_def case_prod_beta)





subsection \<open>Selecting columns\<close>

lemma select_columns_available:
  "select_columns df (available df target) =
     Some (map (\<lambda>c. (c, the (get_col df c))) (available df target))"
proof -
  have "\<forall>c\<in>set (available df target). map_option (\<lambda>vs. (c, vs)) (get_col df c)
          = Some (c, the (get_col df c))"
    using get_col_None[of df] by (auto simp add: available_def)
  then show ?thesis
    unfolding select_columns_def by (rule those_map_total)
qed


lemma labels_select: "select_columns df cs = Some out \<Longrightarrow> labels out = cs"
proof (induction cs arbitrary: out)
  case Nil
  then show ?case by (simp add: select_columns_def labels_def)
next
  case (Cons a cs)
  then obtain vs rest where rest: "select_columns df cs = Some rest" and out: "out = (a, vs) # rest"
    by (auto simp add: select_columns_def split: option.splits)
  show ?case using Cons.IH[OF rest] by (simp add: out labels_def)
qed



lemma length_key_range: "length (key_range df) = nrows df"
  by (simp add: key_range_def)

subsection \<open>Client dimension\<close>




lemma available_head:
  "c \<in> set (labels df) \<Longrightarrow> available df (c # cs) = c # available df cs"
  by (simp add: available_def)

lemma select_head:
  assumes "get_col df c = Some vs"
  shows "\<exists>rest. select_columns df (available df (c # cs)) = Some ((c, vs) # rest)"
proof -
  have "select_columns df (available df (c # cs)) =
          Some (map (\<lambda>c. (c, the (get_col df c))) (available df (c # cs)))"
    by (rule select_columns_available)
  then show ?thesis
    using assms available_head[OF get_col_labels[OF assms], of cs] by simp
qed

lemma client_dimension_steps:
  assumes run: "create_client_dimension lib customers_df = Some client_dim"
    and ne: "\<not> df_empty customers_df"
  shows "\<exists>ids d3.
           get_col (rename [(''customerid'', ''bk_customer_id''), (''companyname'', ''company_name'')]
                      customers_df) ''bk_customer_id'' = Some ids \<and>
           d3 = foldl ensure_geo
                  (set_col (rename [(''customerid'', ''bk_customer_id''),
                                    (''companyname'', ''company_name'')] customers_df)
                     ''bk_customer_id'' (map (clean_key lib) ids))
                  [''city'', ''country'', ''region''] \<and>
           select_columns (set_col d3 ''sk_client'' (key_range d3))
             (available (set_col d3 ''sk_client'' (key_range d3))
                [''sk_client'', ''bk_customer_id'', ''company_name'', ''city'', ''country'', ''region''])
             = Some client_dim"
  using run ne
  by (auto simp add: create_client_dimension_def Let_def split: Option.bind_splits)

lemma client_surrogate_keys:
  assumes run: "create_client_dimension lib customers_df = Some client_dim"
    and ne: "\<not> df_empty customers_df"
  shows "get_col client_dim ''sk_client'' = Some (map IntV [1..int (nrows client_dim)])"
proof -
  from client_dimension_steps[OF run ne] obtain d3 where
    sel: "select_columns (set_col d3 ''sk_client'' (key_range d3))
             (available (set_col d3 ''sk_client'' (key_range d3))
                [''sk_client'', ''bk_customer_id'', ''company_name'', ''city'', ''country'', ''region''])
             = Some client_dim"
    by blast
  have g: "get_col (set_col d3 ''sk_client'' (key_range d3)) ''sk_client'' = Some (key_range d3)"
    by (simp add: get_col_set_col)
  from select_head[OF g, of "[''bk_customer_id'', ''company_name'', ''city'', ''country'', ''region'']"]
    sel obtain rest where c: "client_dim = (''sk_client'', key_range d3) # rest"
    by auto
  have "nrows client_dim = nrows d3"
    by (simp add: c nrows_def length_key_range)
  then show ?thesis
    by (simp add: c get_col_def key_range_def)
qed



subsection \<open>Evaluation of the examples\<close>



lemma upto_1_3: "[1..3] = [1, 2, 3::int]"
  by (simp add: upto_rec1)

lemma upto_1_4: "[1..4] = [1, 2, 3, 4::int]"
  by (simp add: upto_rec1)










subsection \<open>First positions\<close>





subsection \<open>Dropping duplicates\<close>






lemma length_rows_of: "length (rows_of df) = nrows df"
  by (simp add: rows_of_def)




subsection \<open>Concatenating frames\<close>












subsection \<open>Source loader\<close>















section \<open>The claims\<close>

text \<open>
  C10, as the specification states it: normalising column names twice gives the same
  result as normalising them once. This fails: the name \<^verbatim>\<open>"_\ta"\<close> (underscore, tab,
  \<open>a\<close>) becomes \<^verbatim>\<open>"\ta"\<close>, because \<^verbatim>\<open>strip\<close> runs before the underscore is removed,
  and a second pass strips the tab.
\<close>

theorem standardize_labels_not_idempotent:
  "standardize_labels (standardize_labels [[CHR ''_'', CHR 0x09, CHR ''a'']])
     \<noteq> standardize_labels [[CHR ''_'', CHR 0x09, CHR ''a'']]"
  by (simp add: standardize_labels_def standardize_name_def str_remove_def str_strip_def
      str_lower_def char_lower_def py_isspace_def ascii_uppercase_def ascii_lowercase_def)

text \<open>
  C10, amended: every normalised column name is free of spaces and underscores, and
  normalisation is idempotent on every list of ASCII column names whose only whitespace
  characters are plain spaces.
\<close>

theorem standardize_labels_clean_idempotent:
  "(\<forall>n\<in>set (standardize_labels cols). CHR '' '' \<notin> set n \<and> CHR ''_'' \<notin> set n) \<and>
   ((\<forall>n\<in>set cols. only_plain_spaces n) \<longrightarrow>
      standardize_labels (standardize_labels cols) = standardize_labels cols)"
  using standardize_name_chars standardize_name_idem
  by (auto simp add: standardize_labels_def)

theorem standardize_labels_clean_idempotent_witness:
  "only_plain_spaces '' Order_ID '' \<and> only_plain_spaces ''Unit Price'' \<and>
   standardize_labels ['' Order_ID '', ''Unit Price''] = [''orderid'', ''unitprice''] \<and>
   standardize_labels (standardize_labels ['' Order_ID '', ''Unit Price''])
     = [''orderid'', ''unitprice'']"
  using standardize_labels_clean_idempotent[of "['' Order_ID '', ''Unit Price'']"]
  by (simp add: standardize_labels_def standardize_name_def str_remove_def str_strip_def
      str_lower_def char_lower_def py_isspace_def ascii_uppercase_def ascii_lowercase_def
      only_plain_spaces_def ascii_text_def)



text \<open>
  C9: \<^verbatim>\<open>create_date_dimension\<close> should leave the Orders table it is given unchanged.
  It does not: it assigns the column \<^verbatim>\<open>orderdate\<close> of its argument (the other builders
  work on a copy), so an order without a date has the text \<^verbatim>\<open>nan\<close> as its order date
  after the call.
\<close>

theorem create_date_dimension_overwrites_orders:
  "map_option fst (create_date_dimension example_lib example_orders) =
     Some (set_col example_orders ''orderdate''
             [StrV ''2013-07-04'', StrV ''2013-07-05'', StrV ''nan'']) \<and>
   get_col example_orders ''orderdate'' = Some [StrV ''2013-07-04'', StrV ''2013-07-05'', Null] \<and>
   map_option fst (create_date_dimension example_lib example_orders) \<noteq> Some example_orders"
  by (simp add: example_date_dimension) (simp add: example_orders_def get_col_def)






end
